theory Spec2Isabelle
  imports Main "HOL-Library.Char_ord" "HOL-Library.List_Lexorder"
begin

section \<open>Python values, exceptions and argument bags\<close>

text \<open>
  The module \<^verbatim>\<open>arthur/jobs.py\<close> handles three kinds of dictionaries: the items a
  backend produces, the argument bag \<^verbatim>\<open>backend_args\<close> and its copy \<^verbatim>\<open>args\<close>.
  A dictionary is a map from keys to Python values. Only the values the module itself
  inspects are distinguished: \<^verbatim>\<open>None\<close>, numbers, strings, the datetime produced by
  \<^verbatim>\<open>unixtime_to_datetime\<close>, a cache handle and nested dictionaries. Numbers are
  unbounded integers; the module only tests them for truth and compares them.
\<close>

datatype pyval =
    PyNone
  | PyInt int
  | PyStr string
  | PyDatetime int
  | PyCache string
  | PyDict "(string \<times> pyval) list"

type_synonym pydict = "string \<rightharpoonup> pyval"

text \<open>
  Exceptions, by the classes the \<^verbatim>\<open>except\<close> clauses of \<^verbatim>\<open>execute_perceval_job\<close>
  tell apart: \<^verbatim>\<open>AttributeError\<close>; the other subclasses of \<^verbatim>\<open>Exception\<close>
  (\<^verbatim>\<open>NotFoundError\<close>, \<^verbatim>\<open>ValueError\<close>, \<^verbatim>\<open>KeyError\<close>, \<^verbatim>\<open>TypeError\<close> and whatever else a
  collaborator raises, \<open>OtherException\<close>); and the exceptions that derive from
  \<^verbatim>\<open>BaseException\<close> only (\<^verbatim>\<open>KeyboardInterrupt\<close>, \<^verbatim>\<open>SystemExit\<close>), which no clause catches.
\<close>

datatype exn =
    AttributeError string
  | NotFoundError string
  | ValueError string
  | KeyError string
  | TypeError string
  | OtherException string
  | BaseException string

text \<open>\<^verbatim>\<open>except AttributeError\<close> (line 318).\<close>

fun is_AttributeError :: "exn \<Rightarrow> bool" where
  "is_AttributeError (AttributeError m) = True"
| "is_AttributeError e = False"

text \<open>\<^verbatim>\<open>except Exception\<close> (line 320).\<close>

fun is_Exception :: "exn \<Rightarrow> bool" where
  "is_Exception (BaseException m) = False"
| "is_Exception e = True"

text \<open>Python's truth test, as \<^verbatim>\<open>if x:\<close> and \<^verbatim>\<open>not x\<close> apply it.\<close>

fun truthy :: "pyval \<Rightarrow> bool" where
  "truthy PyNone = False"
| "truthy (PyInt n) = (n \<noteq> 0)"
| "truthy (PyStr s) = (s \<noteq> [])"
| "truthy (PyDatetime t) = True"
| "truthy (PyCache p) = True"
| "truthy (PyDict kvs) = (kvs \<noteq> [])"

text \<open>
  Python's \<^verbatim>\<open>a < b\<close>: numbers with numbers, strings with strings (lexicographic, by
  code point), datetimes with datetimes; any other pair raises \<^verbatim>\<open>TypeError\<close>.
\<close>

fun py_lt :: "pyval \<Rightarrow> pyval \<Rightarrow> exn + bool" where
  "py_lt (PyInt a) (PyInt b) = Inr (a < b)"
| "py_lt (PyStr a) (PyStr b) = Inr (a < b)"
| "py_lt (PyDatetime a) (PyDatetime b) = Inr (a < b)"
| "py_lt a b = Inl (TypeError ''< not supported'')"

section \<open>External collaborators\<close>

text \<open>
  What iterating a generator gives: the items it yields, then how it ends, normally
  (\<open>None\<close>) or by raising.
\<close>

type_synonym production = "pydict list \<times> exn option"

text \<open>
  A parameter list of a callable, in declaration order: the name of each parameter and
  whether it is required (has no default).
\<close>

type_synonym signature = "(string \<times> bool) list"

text \<open>
  The backend class \<^verbatim>\<open>self._bklass\<close>, which Perceval provides. Its methods are
  parameters of the model: the capability flags, the parameters of \<^verbatim>\<open>__init__\<close>,
  \<^verbatim>\<open>fetch\<close> and \<^verbatim>\<open>fetch_from_cache\<close>, whether constructing an instance raises, and what
  the two fetch generators produce. A fetch may answer differently each time it is
  called, so it takes the number of pipeline executions that came before.
\<close>

record backend =
  has_caching :: bool
  has_resuming :: bool
  init_signature :: signature
  construct :: "pydict \<Rightarrow> exn option"
  fetch_signature :: signature
  fetch :: "nat \<Rightarrow> pydict \<Rightarrow> pydict \<Rightarrow> production"
  fetch_from_cache_signature :: signature
  fetch_from_cache :: "nat \<Rightarrow> pydict \<Rightarrow> pydict \<Rightarrow> production"

text \<open>
  The rest of what the module imports: Perceval's backend registry
  (\<^verbatim>\<open>perceval.find_backends(perceval.backends)[0]\<close>), \<^verbatim>\<open>__version__\<close>,
  \<^verbatim>\<open>unixtime_to_datetime\<close>, and the three operations of \<^verbatim>\<open>perceval.cache.Cache\<close> on
  the cache stored under a path, each of which may raise.
\<close>

record env =
  find_backends :: "string \<rightharpoonup> backend"
  version :: string
  unixtime_to_datetime :: "pyval \<Rightarrow> exn + pyval"
  cache_open :: "string \<Rightarrow> exn option"
  cache_backup :: "string \<Rightarrow> exn option"
  cache_recover :: "string \<Rightarrow> exn option"

text \<open>
  Modelled from the spec: \<^verbatim>\<open>find_signature_parameters\<close> of
  \<^verbatim>\<open>grimoirelab.toolkit.introspect\<close>, which is not part of the sources. Given the
  parameters a callable accepts and a bag of candidates, it returns the entries of the
  bag those parameters name; a required parameter the bag lacks raises
  \<^verbatim>\<open>AttributeError\<close>.
\<close>

definition find_signature_parameters :: "signature \<Rightarrow> pydict \<Rightarrow> exn + pydict" where
  "find_signature_parameters sig candidates =
     (case filter (\<lambda>(name, required). required \<and> candidates name = None) sig of
        [] \<Rightarrow> Inr (candidates |` set (map fst sig))
      | (name, required) # rest \<Rightarrow> Inl (AttributeError name))"

section \<open>The mutable world\<close>

text \<open>
  Argument bags are objects: \<^verbatim>\<open>run\<close> receives a reference to the caller's bag, copies
  it and writes to the copy. The heap maps addresses to dictionaries; addresses below
  \<open>heap_next\<close> are allocated. The Redis connection maps a queue name to the list
  \<^verbatim>\<open>rpush\<close> appends to. Three logs record what the code did, for the theorems to read:
  the outcome of every call of \<^verbatim>\<open>run\<close>, the argument bag and the flag of every call of
  \<^verbatim>\<open>_execute\<close>, and the operations on the cache.
\<close>

datatype cache_op = CacheOpen string | CacheBackup string | CacheRecover string

record world =
  heap_cells :: "nat \<Rightarrow> pydict"
  heap_next :: nat
  redis :: "string \<Rightarrow> pydict list"
  run_log :: "exn option list"
  exec_log :: "(pydict \<times> bool) list"
  cache_log :: "cache_op list"

text \<open>\<^verbatim>\<open>d.copy()\<close>: a new dictionary with the entries of the old one.\<close>

definition dict_copy :: "world \<Rightarrow> nat \<Rightarrow> nat \<times> world" where
  "dict_copy w a =
     (heap_next w,
      w\<lparr>heap_cells := (heap_cells w)(heap_next w := heap_cells w a),
        heap_next := heap_next w + 1\<rparr>)"

text \<open>\<^verbatim>\<open>d[k] = v\<close>.\<close>

definition dict_set :: "world \<Rightarrow> nat \<Rightarrow> string \<Rightarrow> pyval \<Rightarrow> world" where
  "dict_set w a k v = w\<lparr>heap_cells := (heap_cells w)(a := (heap_cells w a)(k \<mapsto> v))\<rparr>"

text \<open>
  \<^verbatim>\<open>conn.rpush(q, pickle.dumps(item))\<close>: the item joins the end of the list. The
  connection and the pickling are taken not to fail.
\<close>

definition rpush :: "world \<Rightarrow> string \<Rightarrow> pydict \<Rightarrow> world" where
  "rpush w q item = w\<lparr>redis := (redis w)(q := redis w q @ [item])\<rparr>"

section \<open>JobResult and PercevalJob\<close>

record JobResult =
  job_id :: string
  task_id :: string
  backend_name :: string
  last_uuid :: pyval
  max_date :: pyval
  nitems :: int
  offset :: pyval
  nresumed :: int

text \<open>
  The fields of \<^verbatim>\<open>PercevalJob\<close>. \<^verbatim>\<open>self.conn\<close> is the \<open>redis\<close> field of the world;
  \<^verbatim>\<open>self.cache\<close> is \<open>None\<close> or the path of the cache handle.
\<close>

record PercevalJob =
  bklass :: backend
  self_job_id :: string
  self_task_id :: string
  self_backend :: string
  qitems :: string
  retries :: int
  cache :: "string option"
  result :: JobResult

text \<open>The fresh result of lines 123 and 156.\<close>

definition new_result :: "PercevalJob \<Rightarrow> JobResult" where
  "new_result self =
     \<lparr>job_id = self_job_id self, task_id = self_task_id self,
      backend_name = self_backend self, last_uuid = PyNone, max_date = PyNone,
      nitems = 0, offset = PyNone, nresumed = 0\<rparr>"

text \<open>\<^verbatim>\<open>PercevalJob.__init__\<close> (lines 110-125).\<close>

definition PercevalJob_init ::
  "env \<Rightarrow> string \<Rightarrow> string \<Rightarrow> string \<Rightarrow> string \<Rightarrow> exn + PercevalJob" where
  "PercevalJob_init env jid tid backend q =
     (case find_backends env backend of
        None \<Rightarrow> Inl (NotFoundError backend)
      | Some bk \<Rightarrow>
          Inr \<lparr>bklass = bk, self_job_id = jid, self_task_id = tid,
               self_backend = backend, qitems = q, retries = 0, cache = None,
               result = \<lparr>job_id = jid, task_id = tid, backend_name = backend,
                         last_uuid = PyNone, max_date = PyNone, nitems = 0,
                         offset = PyNone, nresumed = 0\<rparr>\<rparr>)"

section \<open>The item pipeline\<close>

text \<open>
  The decorator \<^verbatim>\<open>metadata\<close> (lines 57-63): every item the wrapped generator yields
  gets the two entries and is yielded in turn; the generator's end is the wrapper's.
\<close>

definition metadata :: "env \<Rightarrow> PercevalJob \<Rightarrow> production \<Rightarrow> production" where
  "metadata env self p =
     (map (\<lambda>item. item(''arthur_version'' \<mapsto> PyStr (version env),
                        ''job_id'' \<mapsto> PyStr (self_job_id self))) (fst p),
      snd p)"

text \<open>
  The body of \<^verbatim>\<open>_execute\<close> (lines 253-264), before decoration; \<open>n\<close> is the number of
  pipeline executions so far.
\<close>

definition execute_body :: "PercevalJob \<Rightarrow> nat \<Rightarrow> pydict \<Rightarrow> bool \<Rightarrow> production" where
  "execute_body self n backend_args from_cache =
     (case find_signature_parameters (init_signature (bklass self)) backend_args of
        Inl e \<Rightarrow> ([], Some e)
      | Inr kinit \<Rightarrow>
          (case construct (bklass self) kinit of
             Some e \<Rightarrow> ([], Some e)
           | None \<Rightarrow>
               (let (fnc_fetch, fnc_signature) =
                      (if \<not> from_cache
                       then (fetch (bklass self), fetch_signature (bklass self))
                       else (fetch_from_cache (bklass self),
                             fetch_from_cache_signature (bklass self)))
                in case find_signature_parameters fnc_signature backend_args of
                     Inl e \<Rightarrow> ([], Some e)
                   | Inr kfetch \<Rightarrow> fnc_fetch n kinit kfetch)))"

text \<open>\<^verbatim>\<open>_execute\<close> as the class has it: the body under the decorator.\<close>

definition execute :: "env \<Rightarrow> PercevalJob \<Rightarrow> nat \<Rightarrow> pydict \<Rightarrow> bool \<Rightarrow> production" where
  "execute env self n backend_args from_cache =
     metadata env self (execute_body self n backend_args from_cache)"

section \<open>PercevalJob.run\<close>

text \<open>
  Lines 172-173: the item's timestamp replaces \<open>max_date\<close> when \<open>max_date\<close> is not
  true or is less than it. A missing key raises \<^verbatim>\<open>KeyError\<close>.
\<close>

definition update_max_date :: "JobResult \<Rightarrow> pydict \<Rightarrow> exn + JobResult" where
  "update_max_date r item =
     (case item ''updated_on'' of
        None \<Rightarrow> Inl (KeyError ''updated_on'')
      | Some t \<Rightarrow>
          if \<not> truthy (max_date r) then Inr (r\<lparr>max_date := t\<rparr>)
          else (case py_lt (max_date r) t of
                  Inl e \<Rightarrow> Inl e
                | Inr b \<Rightarrow> Inr (if b then r\<lparr>max_date := t\<rparr> else r)))"

text \<open>
  The loop of lines 166-175 over the items the pipeline yields, then the pipeline's own
  end. An exception leaves the job and the world as they were when it was raised.
\<close>

fun run_items ::
  "PercevalJob \<Rightarrow> world \<Rightarrow> pydict list \<Rightarrow> exn option \<Rightarrow> exn option \<times> PercevalJob \<times> world" where
  "run_items self w [] ending = (ending, self, w)"
| "run_items self w (item # items) ending =
     (let w1 = rpush w (qitems self) item;
          r1 = (result self)\<lparr>nitems := nitems (result self) + 1\<rparr>
      in case item ''uuid'' of
           None \<Rightarrow> (Some (KeyError ''uuid''), self\<lparr>result := r1\<rparr>, w1)
         | Some u \<Rightarrow>
             (let r2 = r1\<lparr>last_uuid := u\<rparr>
              in case update_max_date r2 item of
                   Inl e \<Rightarrow> (Some e, self\<lparr>result := r2\<rparr>, w1)
                 | Inr r3 \<Rightarrow>
                     (let r4 = (case item ''offset'' of
                                  None \<Rightarrow> r3
                                | Some off \<Rightarrow> r3\<lparr>offset := off\<rparr>)
                      in run_items (self\<lparr>result := r4\<rparr>) w1 items ending)))"

text \<open>
  Lines 155-164: the result is replaced when the run does not resume; otherwise the
  recorded date and offset are written to \<open>args\<close> when they are true, and
  \<open>nresumed\<close> grows by one. \<^verbatim>\<open>unixtime_to_datetime\<close> may raise.
\<close>

definition run_resume ::
  "env \<Rightarrow> PercevalJob \<Rightarrow> world \<Rightarrow> nat \<Rightarrow> bool \<Rightarrow> exn option \<times> PercevalJob \<times> world" where
  "run_resume env self w args resume =
     (if \<not> resume then (None, self\<lparr>result := new_result self\<rparr>, w)
      else
        (case (if truthy (max_date (result self))
               then (case unixtime_to_datetime env (max_date (result self)) of
                       Inl e \<Rightarrow> Inl e
                     | Inr d \<Rightarrow> Inr (dict_set w args ''from_date'' d))
               else Inr w) of
           Inl e \<Rightarrow> (Some e, self, w)
         | Inr w1 \<Rightarrow>
             (let w2 = (if truthy (offset (result self))
                        then dict_set w1 args ''offset'' (offset (result self))
                        else w1)
              in (None,
                  self\<lparr>result := (result self)\<lparr>nresumed := nresumed (result self) + 1\<rparr>\<rparr>,
                  w2))))"

text \<open>
  \<^verbatim>\<open>run\<close> (lines 152-175). \<open>backend_args\<close> is the address of the caller's bag. The
  outcome of the call is appended to \<open>run_log\<close> as the call ends.
\<close>

definition run_body ::
  "env \<Rightarrow> PercevalJob \<Rightarrow> world \<Rightarrow> nat \<Rightarrow> bool \<Rightarrow> bool \<Rightarrow> exn option \<times> PercevalJob \<times> world" where
  "run_body env self w backend_args resume from_cache =
     (let (args, w1) = dict_copy w backend_args;
          w2 = dict_set w1 args ''cache''
                 (case cache self of None \<Rightarrow> PyNone | Some p \<Rightarrow> PyCache p)
      in case run_resume env self w2 args resume of
           (Some e, self1, w3) \<Rightarrow> (Some e, self1, w3)
         | (None, self1, w3) \<Rightarrow>
             (let p = execute env self1 (length (exec_log w3)) (heap_cells w3 args)
                        from_cache;
                  w4 = w3\<lparr>exec_log := exec_log w3 @ [(heap_cells w3 args, from_cache)]\<rparr>
              in run_items self1 w4 (fst p) (snd p)))"

definition run ::
  "env \<Rightarrow> PercevalJob \<Rightarrow> world \<Rightarrow> nat \<Rightarrow> bool \<Rightarrow> bool \<Rightarrow> exn option \<times> PercevalJob \<times> world" where
  "run env self w backend_args resume from_cache =
     (case run_body env self w backend_args resume from_cache of
        (out, self1, w1) \<Rightarrow> (out, self1, w1\<lparr>run_log := run_log w1 @ [out]\<rparr>))"

section \<open>The cache of a job\<close>

text \<open>
  \<^verbatim>\<open>cache_path\<close> is \<^verbatim>\<open>None\<close> or a string; \<^verbatim>\<open>if cache_path:\<close> and
  \<^verbatim>\<open>if not dirpath:\<close> test it for truth, which the empty string fails too.
\<close>

fun path_truthy :: "string option \<Rightarrow> bool" where
  "path_truthy None = False"
| "path_truthy (Some p) = (p \<noteq> [])"

text \<open>\<^verbatim>\<open>initialize_cache\<close> (lines 189-202).\<close>

definition initialize_cache ::
  "env \<Rightarrow> PercevalJob \<Rightarrow> world \<Rightarrow> string option \<Rightarrow> bool \<Rightarrow> exn option \<times> PercevalJob \<times> world" where
  "initialize_cache env self w dirpath backup =
     (case dirpath of
        None \<Rightarrow> (Some (ValueError ''dirpath requieres a value''), self, w)
      | Some p \<Rightarrow>
          if \<not> path_truthy dirpath
          then (Some (ValueError ''dirpath requieres a value''), self, w)
          else
            (let w1 = w\<lparr>cache_log := cache_log w @ [CacheOpen p]\<rparr>
             in case cache_open env p of
                  Some e \<Rightarrow> (Some e, self, w1)
                | None \<Rightarrow>
                    (let self1 = self\<lparr>cache := Some p\<rparr>
                     in if backup
                        then (let w2 = w1\<lparr>cache_log := cache_log w1 @ [CacheBackup p]\<rparr>
                              in (cache_backup env p, self1, w2))
                        else (None, self1, w1))))"

text \<open>\<^verbatim>\<open>recover_cache\<close> (lines 210-216).\<close>

definition recover_cache ::
  "env \<Rightarrow> PercevalJob \<Rightarrow> world \<Rightarrow> exn option \<times> PercevalJob \<times> world" where
  "recover_cache env self w =
     (case cache self of
        None \<Rightarrow> (None, self, w)
      | Some p \<Rightarrow>
          (cache_recover env p, self, w\<lparr>cache_log := cache_log w @ [CacheRecover p]\<rparr>))"

section \<open>execute_perceval_job\<close>

text \<open>
  Lines 325-327, inside the handler of line 320: with a cache path and no fetching from
  the cache, the cache is recovered and the job's handle dropped. An exception of
  \<^verbatim>\<open>recover_cache\<close> is raised inside the handler, so line 327 is not reached.
\<close>

definition rollback_cache ::
  "env \<Rightarrow> PercevalJob \<Rightarrow> world \<Rightarrow> string option \<Rightarrow> bool \<Rightarrow> exn option \<times> PercevalJob \<times> world" where
  "rollback_cache env job w cache_path from_cache =
     (if path_truthy cache_path \<and> \<not> from_cache
      then (case recover_cache env job w of
              (Some e, job1, w1) \<Rightarrow> (Some e, job1, w1)
            | (None, job1, w1) \<Rightarrow> (None, job1\<lparr>cache := None\<rparr>, w1))
      else (None, job, w))"

text \<open>
  The loop of lines 314-339. \<open>run_job\<close> is the loop itself: it ends when a run
  returns (line 339) or an exception leaves the function. No clause catches an
  exception that is not an \<^verbatim>\<open>Exception\<close>, nor one raised inside the handler.
\<close>

function retry_loop ::
  "env \<Rightarrow> PercevalJob \<Rightarrow> world \<Rightarrow> nat \<Rightarrow> string option \<Rightarrow> bool \<Rightarrow> int \<Rightarrow> bool \<Rightarrow> int
     \<Rightarrow> (exn + JobResult) \<times> world" where
  "retry_loop env job w backend_args cache_path from_cache max_retries resume failures =
     (case run env job w backend_args resume from_cache of
        (None, job1, w1) \<Rightarrow> (Inr (result job1), w1)
      | (Some e, job1, w1) \<Rightarrow>
          if is_AttributeError e then (Inl e, w1)
          else if \<not> is_Exception e then (Inl e, w1)
          else
            (let failures1 = failures + 1
             in case rollback_cache env job1 w1 cache_path from_cache of
                  (Some e2, job2, w2) \<Rightarrow> (Inl e2, w2)
                | (None, job2, w2) \<Rightarrow>
                    if \<not> has_resuming (bklass job2) \<or> failures1 \<ge> max_retries
                    then (Inl e, w2)
                    else retry_loop env job2 w2 backend_args cache_path from_cache
                           max_retries True failures1))"
  by pat_completeness auto
termination
  by (relation "measure (\<lambda>(env, job, w, backend_args, cache_path, from_cache, max_retries,
                            resume, failures). nat (max_retries - failures))") auto

text \<open>
  Lines 296-308 of \<^verbatim>\<open>execute_perceval_job\<close>, up to the loop: the job is built, the
  cache attributes are checked against the backend and the cache is set up.
  \<open>rq_job_id\<close> is the identifier of the current RQ job, whose connection is the
  \<open>redis\<close> field of the world.
\<close>

definition job_setup ::
  "env \<Rightarrow> world \<Rightarrow> string \<Rightarrow> string \<Rightarrow> string \<Rightarrow> string \<Rightarrow> string option \<Rightarrow> bool
     \<Rightarrow> (exn + PercevalJob) \<times> world" where
  "job_setup env w rq_job_id backend q tid cache_path from_cache =
     (case PercevalJob_init env rq_job_id tid backend q of
        Inl e \<Rightarrow> (Inl e, w)
      | Inr job \<Rightarrow>
          if \<not> has_caching (bklass job) \<and> (path_truthy cache_path \<or> from_cache)
          then (Inl (AttributeError ''cache attributes set but cache is not supported''), w)
          else if path_truthy cache_path
          then (case initialize_cache env job w cache_path (\<not> from_cache) of
                  (Some e, job1, w1) \<Rightarrow> (Inl e, w1)
                | (None, job1, w1) \<Rightarrow> (Inr job1, w1))
          else (Inr job, w))"

text \<open>
  \<^verbatim>\<open>execute_perceval_job\<close> (lines 296-346): the setup, then the loop with
  \<^verbatim>\<open>resume = False\<close> and \<^verbatim>\<open>failures = 0\<close>; the result of the job is returned.
\<close>

definition execute_perceval_job ::
  "env \<Rightarrow> world \<Rightarrow> string \<Rightarrow> string \<Rightarrow> nat \<Rightarrow> string \<Rightarrow> string \<Rightarrow> string option \<Rightarrow> bool
     \<Rightarrow> int \<Rightarrow> (exn + JobResult) \<times> world" where
  "execute_perceval_job env w rq_job_id backend backend_args q tid cache_path from_cache
       max_retries =
     (case job_setup env w rq_job_id backend q tid cache_path from_cache of
        (Inl e, w1) \<Rightarrow> (Inl e, w1)
      | (Inr job, w1) \<Rightarrow>
          retry_loop env job w1 backend_args cache_path from_cache max_retries False 0)"

section \<open>Sample collaborators\<close>

text \<open>
  A backend that accepts the given constructor parameters and whose fetch yields the
  \<open>n\<close>-th of the given productions when the pipeline runs for the \<open>n\<close>-th time; an
  environment that knows this backend as \<^verbatim>\<open>git\<close>, converts numbers to datetimes and
  whose cache recovery ends as given; and a world whose only object is the empty
  argument bag at address 0.
\<close>

definition sample_backend :: "bool \<Rightarrow> bool \<Rightarrow> signature \<Rightarrow> (nat \<Rightarrow> production) \<Rightarrow> backend" where
  "sample_backend caching resuming sig prods =
     \<lparr>has_caching = caching, has_resuming = resuming, init_signature = sig,
      construct = (\<lambda>kinit. None),
      fetch_signature = [], fetch = (\<lambda>n kinit kfetch. prods n),
      fetch_from_cache_signature = [], fetch_from_cache = (\<lambda>n kinit kfetch. prods n)\<rparr>"

definition sample_env :: "backend \<Rightarrow> exn option \<Rightarrow> env" where
  "sample_env bk recovered =
     \<lparr>find_backends = [''git'' \<mapsto> bk], version = ''0.1.0'',
      unixtime_to_datetime =
        (\<lambda>v. case v of PyInt t \<Rightarrow> Inr (PyDatetime t)
                      | _ \<Rightarrow> Inl (OtherException ''InvalidDateError'')),
      cache_open = (\<lambda>p. None), cache_backup = (\<lambda>p. None),
      cache_recover = (\<lambda>p. recovered)\<rparr>"

definition sample_world :: world where
  "sample_world =
     \<lparr>heap_cells = (\<lambda>a. Map.empty), heap_next = 1, redis = (\<lambda>q. []),
      run_log = [], exec_log = [], cache_log = []\<rparr>"

text \<open>A job on the sample backend, as \<^verbatim>\<open>PercevalJob.__init__\<close> leaves it.\<close>

definition sample_job :: "backend \<Rightarrow> PercevalJob" where
  "sample_job bk =
     \<lparr>bklass = bk, self_job_id = ''job-1'', self_task_id = ''task-1'',
      self_backend = ''git'', qitems = ''items'', retries = 0, cache = None,
      result = \<lparr>job_id = ''job-1'', task_id = ''task-1'', backend_name = ''git'',
                last_uuid = PyNone, max_date = PyNone, nitems = 0,
                offset = PyNone, nresumed = 0\<rparr>\<rparr>"

text \<open>An item with the three fields \<^verbatim>\<open>run\<close> reads.\<close>

definition sample_item :: "string \<Rightarrow> int \<Rightarrow> int \<Rightarrow> pydict" where
  "sample_item u t k = [''uuid'' \<mapsto> PyStr u, ''updated_on'' \<mapsto> PyInt t, ''offset'' \<mapsto> PyInt k]"

text \<open>
  Three backends on the sample: one whose fetch yields nothing and ends, one whose
  fetch raises at once every time, and one whose constructor requires a parameter
  \<^verbatim>\<open>origin\<close>, which the empty bag lacks.
\<close>

definition quiet_backend :: "bool \<Rightarrow> backend" where
  "quiet_backend caching = sample_backend caching True [] (\<lambda>n. ([], None))"

definition failing_backend :: "bool \<Rightarrow> backend" where
  "failing_backend resuming =
     sample_backend True resuming [] (\<lambda>n. ([], Some (OtherException ''connection lost'')))"

definition strict_backend :: backend where
  "strict_backend = sample_backend True True [(''origin'', True)] (\<lambda>n. ([], None))"

text \<open>
  A backend whose first fetch yields one item with timestamp \<open>t\<close> and offset \<open>k\<close>
  and then raises, and whose later fetches yield nothing; a backend whose fetch yields
  an item with timestamp 0 and then one with timestamp -5; a job whose result records
  one item, a date and an offset; and the sample item with the two entries that
  \<^verbatim>\<open>metadata\<close> adds for the sample job.
\<close>

definition flaky_backend :: "int \<Rightarrow> int \<Rightarrow> backend" where
  "flaky_backend t k =
     sample_backend True True []
       (\<lambda>n. if n = 0 then ([sample_item ''a'' t k], Some (OtherException ''connection lost''))
            else ([], None))"

definition epoch_backend :: backend where
  "epoch_backend =
     sample_backend True True [] (\<lambda>n. ([sample_item ''a'' 0 0, sample_item ''b'' (- 5) 1], None))"

definition sample_job_after :: "backend \<Rightarrow> pyval \<Rightarrow> pyval \<Rightarrow> PercevalJob" where
  "sample_job_after bk t k =
     (sample_job bk)\<lparr>result := (result (sample_job bk))\<lparr>last_uuid := PyStr ''a'',
        max_date := t, nitems := 1, offset := k\<rparr>\<rparr>"

definition tagged_item :: "string \<Rightarrow> int \<Rightarrow> int \<Rightarrow> pydict" where
  "tagged_item u t k =
     (sample_item u t k)(''arthur_version'' \<mapsto> PyStr ''0.1.0'', ''job_id'' \<mapsto> PyStr ''job-1'')"

text \<open>
  A backend whose constructor requires \<^verbatim>\<open>origin\<close> and whose fetch raises at once
  every time, and a world whose argument bag at address 0 holds an \<^verbatim>\<open>origin\<close>.
\<close>

definition origin_backend :: backend where
  "origin_backend =
     sample_backend True True [(''origin'', True)]
       (\<lambda>n. ([], Some (OtherException ''connection lost'')))"

definition origin_world :: world where
  "origin_world = sample_world\<lparr>heap_cells := (\<lambda>a. [''origin'' \<mapsto> PyStr ''repo''])\<rparr>"

section \<open>What a run leaves alone\<close>

text \<open>
  The loop over the items writes to the queue and to the result only; the whole of
  \<^verbatim>\<open>run\<close> allocates one dictionary, leaves the allocated ones as they are, keeps the
  job's backend and cache handle and adds one entry to the log of runs.
\<close>

lemma run_items_run_log: "run_log (snd (snd (run_items self w items ending))) = run_log w"
  by (induction items arbitrary: self w)
     (auto simp: rpush_def Let_def split: option.splits sum.splits)

lemma run_items_heap:
  "heap_cells (snd (snd (run_items self w items ending))) = heap_cells w"
  by (induction items arbitrary: self w)
     (auto simp: rpush_def Let_def split: option.splits sum.splits)

lemma run_items_exec_log:
  "exec_log (snd (snd (run_items self w items ending))) = exec_log w"
  by (induction items arbitrary: self w)
     (auto simp: rpush_def Let_def split: option.splits sum.splits)

lemma run_items_cache_log:
  "cache_log (snd (snd (run_items self w items ending))) = cache_log w"
  by (induction items arbitrary: self w)
     (auto simp: rpush_def Let_def split: option.splits sum.splits)

lemma run_items_nresumed:
  "nresumed (result (fst (snd (run_items self w items ending)))) = nresumed (result self)"
  by (induction items arbitrary: self w)
     (auto simp: update_max_date_def Let_def split: option.splits sum.splits if_splits)

lemma run_items_heap_next:
  "heap_next (snd (snd (run_items self w items ending))) = heap_next w"
  by (induction items arbitrary: self w)
     (auto simp: rpush_def Let_def split: option.splits sum.splits)

lemma run_items_job:
  "bklass (fst (snd (run_items self w items ending))) = bklass self \<and>
   cache (fst (snd (run_items self w items ending))) = cache self"
  by (induction items arbitrary: self w)
     (auto simp: Let_def split: option.splits sum.splits)


lemma run_items_frame:
  assumes "run_items self w items ending = (out, self1, w1)"
  shows "run_log w1 = run_log w" and "heap_cells w1 = heap_cells w"
    and "heap_next w1 = heap_next w"
    and "exec_log w1 = exec_log w" and "cache_log w1 = cache_log w"
    and "bklass self1 = bklass self" and "cache self1 = cache self"
    and "nresumed (result self1) = nresumed (result self)"
  using assms run_items_run_log [of self w items ending]
    run_items_heap [of self w items ending] run_items_exec_log [of self w items ending]
    run_items_cache_log [of self w items ending] run_items_job [of self w items ending]
    run_items_nresumed [of self w items ending]
    run_items_heap_next [of self w items ending]
  by simp_all

lemma run_resume_frame:
  assumes "run_resume env self w args resume = (out, self1, w1)"
  shows "run_log w1 = run_log w" and "heap_next w1 = heap_next w"
    and "exec_log w1 = exec_log w" and "cache_log w1 = cache_log w"
    and "redis w1 = redis w"
    and "bklass self1 = bklass self" and "cache self1 = cache self"
    and "a \<noteq> args \<Longrightarrow> heap_cells w1 a = heap_cells w a"
  using assms
  by (auto simp: run_resume_def dict_set_def Let_def split: sum.splits if_splits)



lemma run_body_frame:
  assumes "run_body env self w backend_args resume fc = (out, self1, w1)"
  shows "run_log w1 = run_log w \<and> cache_log w1 = cache_log w \<and>
         bklass self1 = bklass self \<and> cache self1 = cache self \<and>
         heap_next w1 = heap_next w + 1 \<and>
         (\<forall>a. a < heap_next w \<longrightarrow> heap_cells w1 a = heap_cells w a)"
proof -
  define w2 where "w2 = dict_set (snd (dict_copy w backend_args)) (heap_next w) ''cache''
                          (case cache self of None \<Rightarrow> PyNone | Some p \<Rightarrow> PyCache p)"
  have w2: "run_log w2 = run_log w" "cache_log w2 = cache_log w"
    "heap_next w2 = heap_next w + 1"
    "\<And>a. a < heap_next w \<Longrightarrow> heap_cells w2 a = heap_cells w a"
    by (simp_all add: w2_def dict_set_def dict_copy_def)
  obtain o3 self3 w3 where r: "run_resume env self w2 (heap_next w) resume = (o3, self3, w3)"
    by (cases "run_resume env self w2 (heap_next w) resume") auto
  note f3 = run_resume_frame [OF r]
  show ?thesis
  proof (cases o3)
    case None
    let ?w4 = "w3\<lparr>exec_log := exec_log w3 @ [(heap_cells w3 (heap_next w), fc)]\<rparr>"
    let ?p = "execute env self3 (length (exec_log w3)) (heap_cells w3 (heap_next w)) fc"
    from assms r None have i: "run_items self3 ?w4 (fst ?p) (snd ?p) = (out, self1, w1)"
      by (simp add: run_body_def dict_copy_def w2_def Let_def)
    note f4 = run_items_frame [OF i]
    show ?thesis
      using f3 f4 w2 by simp
  next
    case (Some e)
    from assms r Some have "out = Some e" "self1 = self3" "w1 = w3"
      by (simp_all add: run_body_def dict_copy_def w2_def Let_def)
    then show ?thesis
      using f3 w2 by simp
  qed
qed

lemma run_frame:
  assumes "run env self w backend_args resume fc = (out, self1, w1)"
  shows "run_log w1 = run_log w @ [out] \<and> cache_log w1 = cache_log w \<and>
         bklass self1 = bklass self \<and> cache self1 = cache self \<and>
         heap_next w1 = heap_next w + 1 \<and>
         (\<forall>a. a < heap_next w \<longrightarrow> heap_cells w1 a = heap_cells w a)"
proof -
  obtain o2 self2 w2 where b: "run_body env self w backend_args resume fc = (o2, self2, w2)"
    by (cases "run_body env self w backend_args resume fc") auto
  note f = run_body_frame [OF b]
  from assms b have e: "out = o2" "self1 = self2" "w1 = w2\<lparr>run_log := run_log w2 @ [o2]\<rparr>"
    by (auto simp: run_def)
  show ?thesis
    using f e by simp
qed

section \<open>One turn of the loop\<close>

text \<open>
  The equation of the loop unfolds without end, so it is applied by hand: one lemma for
  each way a turn can go.
\<close>

declare retry_loop.simps [simp del]

lemma rollback_cache_frame:
  assumes "rollback_cache env job w cache_path fc = (out, job1, w1)"
  shows "run_log w1 = run_log w \<and> bklass job1 = bklass job \<and>
         heap_cells w1 = heap_cells w \<and> heap_next w1 = heap_next w \<and>
         (\<forall>p. cache job1 = Some p \<longrightarrow> cache job = Some p)"
  using assms
  by (auto simp: rollback_cache_def recover_cache_def split: if_splits option.splits)

lemma rollback_cache_succeeds:
  assumes "\<forall>p. cache job = Some p \<longrightarrow> cache_recover env p = None"
  shows "fst (rollback_cache env job w cache_path fc) = None"
  using assms
  by (auto simp: rollback_cache_def recover_cache_def split: if_splits option.splits)

lemma retry_loop_returns:
  assumes "run env job w a resume fc = (None, job1, w1)"
  shows "retry_loop env job w a cp fc mr resume failures = (Inr (result job1), w1)"
  using assms by (subst retry_loop.simps) simp

lemma retry_loop_uncaught:
  assumes "run env job w a resume fc = (Some e, job1, w1)"
    and "is_AttributeError e \<or> \<not> is_Exception e"
  shows "retry_loop env job w a cp fc mr resume failures = (Inl e, w1)"
  using assms by (subst retry_loop.simps) auto

lemma retry_loop_recovery_raises:
  assumes "run env job w a resume fc = (Some e, job1, w1)"
    and "is_Exception e" and "\<not> is_AttributeError e"
    and "rollback_cache env job1 w1 cp fc = (Some e2, job2, w2)"
  shows "retry_loop env job w a cp fc mr resume failures = (Inl e2, w2)"
  using assms by (subst retry_loop.simps) (simp add: Let_def)

lemma retry_loop_aborts:
  assumes "run env job w a resume fc = (Some e, job1, w1)"
    and "is_Exception e" and "\<not> is_AttributeError e"
    and "rollback_cache env job1 w1 cp fc = (None, job2, w2)"
    and "\<not> has_resuming (bklass job2) \<or> failures + 1 \<ge> mr"
  shows "retry_loop env job w a cp fc mr resume failures = (Inl e, w2)"
  using assms by (subst retry_loop.simps) (auto simp add: Let_def)

lemma retry_loop_retries:
  assumes "run env job w a resume fc = (Some e, job1, w1)"
    and "is_Exception e" and "\<not> is_AttributeError e"
    and "rollback_cache env job1 w1 cp fc = (None, job2, w2)"
    and "has_resuming (bklass job2)" and "failures + 1 < mr"
  shows "retry_loop env job w a cp fc mr resume failures =
         retry_loop env job2 w2 a cp fc mr True (failures + 1)"
  using assms by (subst retry_loop.simps) (auto simp add: Let_def)

lemma retry_loop_single_run:
  assumes "mr \<le> failures + 1 \<or> \<not> has_resuming (bklass job)"
  shows "run_log (snd (retry_loop env job w a cp fc mr resume failures)) =
         run_log w @ [fst (run env job w a resume fc)]"
proof -
  obtain out job1 w1 where r: "run env job w a resume fc = (out, job1, w1)"
    by (cases "run env job w a resume fc") auto
  note f = run_frame [OF r]
  show ?thesis
  proof (cases out)
    case None
    with r have "retry_loop env job w a cp fc mr resume failures = (Inr (result job1), w1)"
      by (simp add: retry_loop_returns)
    with r f None show ?thesis by simp
  next
    case (Some e)
    show ?thesis
    proof (cases "is_AttributeError e \<or> \<not> is_Exception e")
      case True
      with r Some have "retry_loop env job w a cp fc mr resume failures = (Inl e, w1)"
        by (intro retry_loop_uncaught) auto
      with r f Some show ?thesis by simp
    next
      case False
      obtain o2 job2 w2 where c: "rollback_cache env job1 w1 cp fc = (o2, job2, w2)"
        by (cases "rollback_cache env job1 w1 cp fc") auto
      note g = rollback_cache_frame [OF c]
      show ?thesis
      proof (cases o2)
        case None
        from assms f g have "\<not> has_resuming (bklass job2) \<or> failures + 1 \<ge> mr" by auto
        with r Some False c None have "retry_loop env job w a cp fc mr resume failures = (Inl e, w2)"
          by (intro retry_loop_aborts) auto
        with r Some f g show ?thesis by simp
      next
        case (Some e2)
        with r \<open>out = Some e\<close> False c
        have "retry_loop env job w a cp fc mr resume failures = (Inl e2, w2)"
          by (intro retry_loop_recovery_raises) auto
        with r \<open>out = Some e\<close> f g show ?thesis by simp
      qed
    qed
  qed
qed


lemma retry_loop_log_head:
  "\<exists>rest. run_log (snd (retry_loop env job w a cp fc mr resume failures)) =
          run_log w @ fst (run env job w a resume fc) # rest"
proof (induction "nat (mr - failures)" arbitrary: job w resume failures rule: less_induct)
  case less
  let ?R = "retry_loop env job w a cp fc mr resume failures"
  obtain out job1 w1 where r: "run env job w a resume fc = (out, job1, w1)"
    by (cases "run env job w a resume fc") auto
  note f = run_frame [OF r]
  show ?case
  proof (cases "mr \<le> failures + 1 \<or> \<not> has_resuming (bklass job)")
    case True
    from retry_loop_single_run [OF this] show ?thesis by simp
  next
    case budget: False
    show ?thesis
    proof (cases out)
      case None
      with r have "?R = (Inr (result job1), w1)" by (simp add: retry_loop_returns)
      with r f show ?thesis by simp
    next
      case (Some e)
      show ?thesis
      proof (cases "is_AttributeError e \<or> \<not> is_Exception e")
        case True
        with r Some have "?R = (Inl e, w1)" by (intro retry_loop_uncaught) auto
        with r f show ?thesis by simp
      next
        case False
        obtain o2 job2 w2 where c: "rollback_cache env job1 w1 cp fc = (o2, job2, w2)"
          by (cases "rollback_cache env job1 w1 cp fc") auto
        note g = rollback_cache_frame [OF c]
        show ?thesis
        proof (cases o2)
          case (Some er)
          with r \<open>out = Some e\<close> False c have "?R = (Inl er, w2)"
            by (intro retry_loop_recovery_raises) auto
          with r f g show ?thesis by simp
        next
          case None
          with r \<open>out = Some e\<close> False c budget f g
          have step: "?R = retry_loop env job2 w2 a cp fc mr True (failures + 1)"
            by (intro retry_loop_retries) auto
          from budget have "nat (mr - (failures + 1)) < nat (mr - failures)" by simp
          from less.hyps [OF this, of job2 w2 True]
          obtain rest where "run_log (snd (retry_loop env job2 w2 a cp fc mr True (failures + 1))) =
                  run_log w2 @ fst (run env job2 w2 a True fc) # rest"
            by blast
          with step r f g show ?thesis by simp
        qed
      qed
    qed
  qed
qed

lemma retry_loop_all_failed:
  assumes res: "has_resuming (bklass job)"
    and rec: "\<forall>p. cache job = Some p \<longrightarrow> cache_recover env p = None"
    and fails: "\<forall>out \<in> set (drop (length (run_log w))
                    (run_log (snd (retry_loop env job w a cp fc mr resume failures)))).
                  \<exists>e. out = Some e \<and> is_Exception e \<and> \<not> is_AttributeError e"
  shows "\<exists>e. fst (retry_loop env job w a cp fc mr resume failures) = Inl e \<and>
             last (run_log (snd (retry_loop env job w a cp fc mr resume failures))) = Some e \<and>
             length (run_log (snd (retry_loop env job w a cp fc mr resume failures))) =
               length (run_log w) + nat (max 1 (mr - failures))"
  using res rec fails
proof (induction "nat (mr - failures)" arbitrary: job w resume failures rule: less_induct)
  case less
  let ?R = "retry_loop env job w a cp fc mr resume failures"
  obtain out job1 w1 where r: "run env job w a resume fc = (out, job1, w1)"
    by (cases "run env job w a resume fc") auto
  note f = run_frame [OF r]
  from retry_loop_log_head [of env job w a cp fc mr resume failures] r
  have first: "out \<in> set (drop (length (run_log w)) (run_log (snd ?R)))"
    by auto
  with less.prems(3) obtain e where e: "out = Some e" "is_Exception e" "\<not> is_AttributeError e"
    by blast
  from f less.prems(2) have "\<forall>p. cache job1 = Some p \<longrightarrow> cache_recover env p = None"
    by simp
  then have "fst (rollback_cache env job1 w1 cp fc) = None"
    by (rule rollback_cache_succeeds)
  then obtain job2 w2 where c: "rollback_cache env job1 w1 cp fc = (None, job2, w2)"
    by (metis prod.collapse)
  note g = rollback_cache_frame [OF c]
  have res2: "has_resuming (bklass job2)" using f g less.prems(1) by simp
  have rec2: "\<forall>p. cache job2 = Some p \<longrightarrow> cache_recover env p = None"
    using f g less.prems(2) by auto
  show ?case
  proof (cases "failures + 1 \<ge> mr")
    case True
    with r e c have "?R = (Inl e, w2)"
      by (intro retry_loop_aborts) auto
    moreover from True have "nat (max 1 (mr - failures)) = 1" by simp
    ultimately show ?thesis using f g e by simp
  next
    case False
    let ?R2 = "retry_loop env job2 w2 a cp fc mr True (failures + 1)"
    from False r e c res2 have step: "?R = ?R2"
      by (intro retry_loop_retries) auto
    have sub: "set (drop (length (run_log w2)) (run_log (snd ?R2))) \<subseteq>
               set (drop (length (run_log w)) (run_log (snd ?R)))"
      using step f g by (simp add: set_drop_subset_set_drop)
    with less.prems(3)
    have fails2: "\<forall>out \<in> set (drop (length (run_log w2)) (run_log (snd ?R2))).
                    \<exists>e. out = Some e \<and> is_Exception e \<and> \<not> is_AttributeError e"
      by blast
    from False have "nat (mr - (failures + 1)) < nat (mr - failures)" by simp
    from less.hyps [OF this res2 rec2 fails2]
    obtain e' where ih: "fst ?R2 = Inl e'" "last (run_log (snd ?R2)) = Some e'"
      "length (run_log (snd ?R2)) = length (run_log w2) + nat (max 1 (mr - (failures + 1)))"
      by blast
    from False have "1 + nat (max 1 (mr - (failures + 1))) = nat (max 1 (mr - failures))"
      by simp
    with ih step f g show ?thesis by simp
  qed
qed

lemma job_setup_frame:
  assumes "job_setup env w jid backend q tid cp fc = (out, w1)"
  shows "run_log w1 = run_log w \<and> exec_log w1 = exec_log w \<and>
         heap_cells w1 = heap_cells w \<and> heap_next w1 = heap_next w \<and>
         redis w1 = redis w"
  using assms
  by (auto simp: job_setup_def initialize_cache_def Let_def
           split: sum.splits if_splits option.splits prod.splits)

lemma job_setup_job:
  assumes "job_setup env w jid backend q tid cp fc = (Inr job, w1)"
  shows "find_backends env backend = Some (bklass job) \<and>
         (\<forall>p. cache job = Some p \<longrightarrow> cp = Some p) \<and>
         (has_caching (bklass job) \<or> \<not> (path_truthy cp \<or> fc))"
  using assms
  by (auto simp: job_setup_def initialize_cache_def PercevalJob_init_def Let_def
           split: sum.splits if_splits option.splits prod.splits)


section \<open>Evaluating the samples\<close>

lemmas sample_defs = sample_backend_def sample_env_def sample_world_def sample_job_def
  sample_item_def

lemmas run_defs = run_def run_body_def run_resume_def dict_copy_def dict_set_def
  execute_def execute_body_def metadata_def find_signature_parameters_def new_result_def
  update_max_date_def rpush_def

lemmas setup_defs = job_setup_def PercevalJob_init_def initialize_cache_def
  rollback_cache_def recover_cache_def execute_perceval_job_def



lemma failing_backend_run:
  "run (sample_env (failing_backend r) x) (sample_job (failing_backend r)) sample_world 0 False False =
     (Some (OtherException ''connection lost''), sample_job (failing_backend r),
      sample_world\<lparr>heap_cells := (\<lambda>a. Map.empty)(1 := [''cache'' \<mapsto> PyNone]), heap_next := 2,
        exec_log := [([''cache'' \<mapsto> PyNone], False)],
        run_log := [Some (OtherException ''connection lost'')]\<rparr>)"
  by (simp add: run_defs sample_defs failing_backend_def)

lemma failing_backend_setup:
  "job_setup (sample_env (failing_backend r) x) sample_world ''job-1'' ''git'' ''items''
     ''task-1'' None False = (Inr (sample_job (failing_backend r)), sample_world)"
  by (simp add: setup_defs sample_defs failing_backend_def)

lemma strict_backend_run:
  "run (sample_env strict_backend x) (sample_job strict_backend) sample_world 0 False False =
     (Some (AttributeError ''origin''), sample_job strict_backend,
      sample_world\<lparr>heap_cells := (\<lambda>a. Map.empty)(1 := [''cache'' \<mapsto> PyNone]), heap_next := 2,
        exec_log := [([''cache'' \<mapsto> PyNone], False)],
        run_log := [Some (AttributeError ''origin'')]\<rparr>)"
  by (simp add: run_defs sample_defs strict_backend_def)

lemma strict_backend_setup:
  "job_setup (sample_env strict_backend x) sample_world ''job-1'' ''git'' ''items''
     ''task-1'' None False = (Inr (sample_job strict_backend), sample_world)"
  by (simp add: setup_defs sample_defs strict_backend_def)


lemma origin_backend_setup:
  "job_setup (sample_env origin_backend None) origin_world ''job-1'' ''git'' ''items''
     ''task-1'' (Some ''/tmp/cache'') False =
   (Inr ((sample_job origin_backend)\<lparr>cache := Some ''/tmp/cache''\<rparr>),
    origin_world\<lparr>cache_log := [CacheOpen ''/tmp/cache'', CacheBackup ''/tmp/cache'']\<rparr>)"
  by (simp add: setup_defs sample_defs origin_backend_def origin_world_def)

lemma origin_backend_runs:
  "run_log (snd (execute_perceval_job (sample_env origin_backend None) origin_world ''job-1''
                   ''git'' 0 ''items'' ''task-1'' (Some ''/tmp/cache'') False 3)) =
     [Some (OtherException ''connection lost''), Some (OtherException ''connection lost''),
      Some (OtherException ''connection lost'')]"
  by (simp add: run_defs sample_defs origin_backend_def origin_world_def setup_defs
        retry_loop.simps)

lemma failing_backend_run_cache:
  "run (sample_env (failing_backend r) x) ((sample_job (failing_backend r))\<lparr>cache := Some ''/tmp/cache''\<rparr>)
     sample_world 0 False False =
     (Some (OtherException ''connection lost''),
      (sample_job (failing_backend r))\<lparr>cache := Some ''/tmp/cache''\<rparr>,
      sample_world\<lparr>heap_cells := (\<lambda>a. Map.empty)(1 := [''cache'' \<mapsto> PyCache ''/tmp/cache'']),
        heap_next := 2,
        exec_log := [([''cache'' \<mapsto> PyCache ''/tmp/cache''], False)],
        run_log := [Some (OtherException ''connection lost'')]\<rparr>)"
  by (simp add: run_defs sample_defs failing_backend_def)

section \<open>The cache precondition\<close>

text \<open>
  C4. When the backend is known and does not support caching, and a cache path (a
  non-empty one, as line 304 tests it) or fetching from the cache is asked for,
  \<^verbatim>\<open>execute_perceval_job\<close> raises the \<^verbatim>\<open>AttributeError\<close> of line 305 and leaves the
  world as it found it: no run is logged, no cache is opened, nothing is queued.
\<close>

theorem cache_unsupported_raises_before_run:
  assumes "find_backends env backend = Some bk"
    and "\<not> has_caching bk"
    and "path_truthy cache_path \<or> from_cache"
  shows "execute_perceval_job env w rq_job_id backend backend_args q tid cache_path
           from_cache max_retries =
         (Inl (AttributeError ''cache attributes set but cache is not supported''), w)"
  using assms by (simp add: execute_perceval_job_def job_setup_def PercevalJob_init_def)

theorem cache_unsupported_raises_before_run_witness:
  "find_backends (sample_env (quiet_backend False) None) ''git'' = Some (quiet_backend False) \<and>
   \<not> has_caching (quiet_backend False) \<and>
   path_truthy (Some ''/tmp/cache'') \<and>
   execute_perceval_job (sample_env (quiet_backend False) None) sample_world ''job-1'' ''git''
     0 ''items'' ''task-1'' (Some ''/tmp/cache'') False 3 =
   (Inl (AttributeError ''cache attributes set but cache is not supported''), sample_world)"
  using cache_unsupported_raises_before_run
    [of "sample_env (quiet_backend False) None" "''git''" "quiet_backend False"
        "Some ''/tmp/cache''" False sample_world "''job-1''" 0 "''items''" "''task-1''" 3]
  by (simp add: sample_env_def sample_backend_def quiet_backend_def)

section \<open>The retry loop\<close>






text \<open>
  C6. At any turn of the loop, whatever the number of failures so far, the budget, the
  cache path and the backend's support for resuming: when \<^verbatim>\<open>run\<close> raises an
  \<^verbatim>\<open>AttributeError\<close> (the error of a parameter the bag lacks, lines 318-319), the loop
  ends with that error and with the world as that run left it, so that no cache is
  recovered and no further run is made.
\<close>

theorem attribute_error_not_retried:
  assumes "run env job w backend_args resume from_cache = (Some e, job1, w1)"
    and "is_AttributeError e"
  shows "retry_loop env job w backend_args cache_path from_cache max_retries resume failures =
         (Inl e, w1)"
  using assms by (intro retry_loop_uncaught) auto

theorem attribute_error_not_retried_witness:
  "fst (run (sample_env strict_backend None) (sample_job strict_backend) sample_world 0
          False False) = Some (AttributeError ''origin'') \<and>
   is_AttributeError (AttributeError ''origin'') \<and>
   has_resuming (bklass (sample_job strict_backend)) \<and>
   fst (retry_loop (sample_env strict_backend None) (sample_job strict_backend) sample_world
          0 None False 5 False 0) = Inl (AttributeError ''origin'') \<and>
   run_log (snd (retry_loop (sample_env strict_backend None) (sample_job strict_backend)
                   sample_world 0 None False 5 False 0)) = [Some (AttributeError ''origin'')]"
  using attribute_error_not_retried [OF strict_backend_run, of None None 5 0]
  by (simp add: strict_backend_run)
     (simp add: sample_job_def strict_backend_def sample_backend_def)

text \<open>
  C1, amended. When the setup succeeds, the backend supports resuming, every run that
  \<^verbatim>\<open>execute_perceval_job\<close> makes raises an exception that the handler of line 320
  catches, and recovering the cache does not raise, \<^verbatim>\<open>execute_perceval_job\<close> calls
  \<^verbatim>\<open>run\<close> exactly \<open>max 1 max_retries\<close> times and then raises the error of the last of
  these runs. The runs made are the entries the log of runs gains.
\<close>

theorem always_failing_runs_max_retries:
  assumes "job_setup env w rq_job_id backend q tid cache_path from_cache = (Inr job, w0)"
    and "has_resuming (bklass job)"
    and "\<forall>out \<in> set (drop (length (run_log w))
                  (run_log (snd (execute_perceval_job env w rq_job_id backend backend_args
                                   q tid cache_path from_cache max_retries)))).
           \<exists>e. out = Some e \<and> is_Exception e \<and> \<not> is_AttributeError e"
    and "\<forall>p. cache_path = Some p \<longrightarrow> cache_recover env p = None"
  shows "\<exists>e. fst (execute_perceval_job env w rq_job_id backend backend_args q tid
                     cache_path from_cache max_retries) = Inl e \<and>
             last (run_log (snd (execute_perceval_job env w rq_job_id backend backend_args
                                   q tid cache_path from_cache max_retries))) = Some e \<and>
             length (run_log (snd (execute_perceval_job env w rq_job_id backend backend_args
                                     q tid cache_path from_cache max_retries))) =
               length (run_log w) + nat (max 1 max_retries)"
proof -
  from assms(4) job_setup_job [OF assms(1)]
  have rec: "\<forall>p. cache job = Some p \<longrightarrow> cache_recover env p = None" by auto
  note s = job_setup_frame [OF assms(1)]
  have R: "execute_perceval_job env w rq_job_id backend backend_args q tid cache_path
             from_cache max_retries =
           retry_loop env job w0 backend_args cache_path from_cache max_retries False 0"
    using assms(1) by (simp add: execute_perceval_job_def)
  from assms(3) R s
  have fails: "\<forall>out \<in> set (drop (length (run_log w0))
                  (run_log (snd (retry_loop env job w0 backend_args cache_path from_cache
                                   max_retries False 0)))).
           \<exists>e. out = Some e \<and> is_Exception e \<and> \<not> is_AttributeError e"
    by simp
  from retry_loop_all_failed [OF assms(2) rec fails] R s
  show ?thesis by simp
qed

theorem always_failing_runs_max_retries_witness:
  "heap_cells origin_world 0 ''origin'' = Some (PyStr ''repo'') \<and>
   init_signature origin_backend = [(''origin'', True)] \<and>
   (\<exists>e. fst (execute_perceval_job (sample_env origin_backend None) origin_world
               ''job-1'' ''git'' 0 ''items'' ''task-1'' (Some ''/tmp/cache'') False 3) = Inl e \<and>
        last (run_log (snd (execute_perceval_job (sample_env origin_backend None)
                origin_world ''job-1'' ''git'' 0 ''items'' ''task-1'' (Some ''/tmp/cache'')
                False 3))) = Some e \<and>
        length (run_log (snd (execute_perceval_job (sample_env origin_backend None)
                  origin_world ''job-1'' ''git'' 0 ''items'' ''task-1'' (Some ''/tmp/cache'')
                  False 3))) = 3)"
proof -
  have res: "has_resuming (bklass ((sample_job origin_backend)\<lparr>cache := Some ''/tmp/cache''\<rparr>))"
    by (simp add: sample_job_def origin_backend_def sample_backend_def)
  have fails: "\<forall>out \<in> set (drop (length (run_log origin_world))
                  (run_log (snd (execute_perceval_job (sample_env origin_backend None)
                     origin_world ''job-1'' ''git'' 0 ''items'' ''task-1''
                     (Some ''/tmp/cache'') False 3)))).
           \<exists>e. out = Some e \<and> is_Exception e \<and> \<not> is_AttributeError e"
    by (simp add: origin_backend_runs) (simp add: origin_world_def sample_world_def)
  have rec: "\<forall>p. Some ''/tmp/cache'' = Some p \<longrightarrow>
               cache_recover (sample_env origin_backend None) p = None"
    by (simp add: sample_env_def)
  from always_failing_runs_max_retries [OF origin_backend_setup res fails rec]
  show ?thesis
    by (simp add: origin_world_def sample_world_def origin_backend_def sample_backend_def)
qed

text \<open>
  As stated, C1 fails: with \<open>max_retries = 0\<close> the always failing backend is run once,
  not zero times; and a backend whose every run raises \<^verbatim>\<open>AttributeError\<close> is run once,
  not three times, with \<open>max_retries = 3\<close>.
\<close>

theorem always_failing_runs_max_retries_counterexample:
  "run_log (snd (execute_perceval_job (sample_env (failing_backend True) None) sample_world
                   ''job-1'' ''git'' 0 ''items'' ''task-1'' None False 0)) =
     [Some (OtherException ''connection lost'')] \<and>
   run_log (snd (execute_perceval_job (sample_env strict_backend None) sample_world
                   ''job-1'' ''git'' 0 ''items'' ''task-1'' None False 3)) =
     [Some (AttributeError ''origin'')]"
  by (simp add: execute_perceval_job_def failing_backend_setup strict_backend_setup
        retry_loop.simps failing_backend_run strict_backend_run)
     (simp add: rollback_cache_def sample_world_def)

text \<open>
  C5, amended. After a run has raised an exception that the handler of line 320
  catches: when the cache is recovered (a cache path, no fetching from the cache, a
  cache handle on the job) and the recovery raises, the loop ends with the error of the
  recovery, right after the recovery and without a further run; when recovering the
  job's cache cannot raise and the job is cancelled (line 329), the loop ends with the
  error of the run.
\<close>

theorem recovery_error_propagates:
  assumes "run env job w backend_args resume from_cache = (Some e, job1, w1)"
    and "is_Exception e" and "\<not> is_AttributeError e"
  shows "(path_truthy cache_path \<and> \<not> from_cache \<and> cache job = Some p \<and>
          cache_recover env p = Some er \<longrightarrow>
          retry_loop env job w backend_args cache_path from_cache max_retries resume failures =
            (Inl er, w1\<lparr>cache_log := cache_log w1 @ [CacheRecover p]\<rparr>)) \<and>
         ((\<forall>p. cache job = Some p \<longrightarrow> cache_recover env p = None) \<and>
          (\<not> has_resuming (bklass job) \<or> max_retries \<le> failures + 1) \<longrightarrow>
          fst (retry_loop env job w backend_args cache_path from_cache max_retries resume
                 failures) = Inl e)"
proof (intro conjI impI)
  note f = run_frame [OF assms(1)]
  assume a: "path_truthy cache_path \<and> \<not> from_cache \<and> cache job = Some p \<and>
             cache_recover env p = Some er"
  with f have "rollback_cache env job1 w1 cache_path from_cache =
               (Some er, job1, w1\<lparr>cache_log := cache_log w1 @ [CacheRecover p]\<rparr>)"
    by (simp add: rollback_cache_def recover_cache_def)
  with assms show "retry_loop env job w backend_args cache_path from_cache max_retries resume
                     failures = (Inl er, w1\<lparr>cache_log := cache_log w1 @ [CacheRecover p]\<rparr>)"
    by (intro retry_loop_recovery_raises) auto
next
  note f = run_frame [OF assms(1)]
  assume b: "(\<forall>p. cache job = Some p \<longrightarrow> cache_recover env p = None) \<and>
             (\<not> has_resuming (bklass job) \<or> max_retries \<le> failures + 1)"
  with f have "\<forall>p. cache job1 = Some p \<longrightarrow> cache_recover env p = None" by simp
  from rollback_cache_succeeds [OF this, of w1 cache_path from_cache]
  obtain job2 w2 where c: "rollback_cache env job1 w1 cache_path from_cache = (None, job2, w2)"
    by (metis prod.collapse)
  note g = rollback_cache_frame [OF c]
  from b f g have "\<not> has_resuming (bklass job2) \<or> failures + 1 \<ge> max_retries" by auto
  with assms c have "retry_loop env job w backend_args cache_path from_cache max_retries
                       resume failures = (Inl e, w2)"
    by (intro retry_loop_aborts) auto
  then show "fst (retry_loop env job w backend_args cache_path from_cache max_retries resume
                    failures) = Inl e" by simp
qed

theorem recovery_error_propagates_witness:
  "fst (retry_loop (sample_env (failing_backend True) (Some (OtherException ''backup missing'')))
          ((sample_job (failing_backend True))\<lparr>cache := Some ''/tmp/cache''\<rparr>) sample_world 0
          (Some ''/tmp/cache'') False 3 False 0) = Inl (OtherException ''backup missing'') \<and>
   fst (retry_loop (sample_env (failing_backend True) None)
          ((sample_job (failing_backend True))\<lparr>cache := Some ''/tmp/cache''\<rparr>) sample_world 0
          (Some ''/tmp/cache'') False 1 False 0) = Inl (OtherException ''connection lost'')"
  using recovery_error_propagates [where cache_path = "Some ''/tmp/cache''"
        and p = "''/tmp/cache''" and er = "OtherException ''backup missing''"
        and max_retries = 3 and failures = 0,
      OF failing_backend_run_cache
        [where r = True and x = "Some (OtherException ''backup missing'')"]]
    recovery_error_propagates [where cache_path = "Some ''/tmp/cache''"
        and p = "''/tmp/cache''" and er = "OtherException ''backup missing''"
        and max_retries = 1 and failures = 0,
      OF failing_backend_run_cache [where r = True and x = None]]
  by (simp add: sample_env_def sample_job_def)

text \<open>
  As stated, C5 fails: the run raises \<open>connection lost\<close>, the recovery of the cache
  raises \<open>backup missing\<close>, and \<open>backup missing\<close> is what the function raises.
\<close>

theorem recovery_error_propagates_counterexample:
  "fst (execute_perceval_job
          (sample_env (failing_backend True) (Some (OtherException ''backup missing'')))
          sample_world ''job-1'' ''git'' 0 ''items'' ''task-1'' (Some ''/tmp/cache'') False 3) =
     Inl (OtherException ''backup missing'') \<and>
   run_log (snd (execute_perceval_job
          (sample_env (failing_backend True) (Some (OtherException ''backup missing'')))
          sample_world ''job-1'' ''git'' 0 ''items'' ''task-1'' (Some ''/tmp/cache'') False 3)) =
     [Some (OtherException ''connection lost'')] \<and>
   cache_log (snd (execute_perceval_job
          (sample_env (failing_backend True) (Some (OtherException ''backup missing'')))
          sample_world ''job-1'' ''git'' 0 ''items'' ''task-1'' (Some ''/tmp/cache'') False 3)) =
     [CacheOpen ''/tmp/cache'', CacheBackup ''/tmp/cache'', CacheRecover ''/tmp/cache'']"
  by (simp add: run_defs sample_defs failing_backend_def setup_defs retry_loop.simps)

section \<open>The progress a run records\<close>

text \<open>
  When the timestamps of the items are positive numbers and every item has a
  \<^verbatim>\<open>uuid\<close>, the loop of \<^verbatim>\<open>run\<close> ends as the pipeline does and leaves in \<open>max_date\<close>
  the greatest of the timestamps and of the positive date recorded before, if any.
\<close>

lemma run_items_max_date_positive:
  assumes "map (\<lambda>item. item ''updated_on'') items = map (\<lambda>t. Some (PyInt t)) ts"
    and "\<forall>item \<in> set items. item ''uuid'' \<noteq> None"
    and "\<forall>t \<in> set ts. 0 < t"
    and "max_date (result self) = PyInt m" and "0 < m"
  shows "fst (run_items self w items ending) = ending \<and>
         max_date (result (fst (snd (run_items self w items ending)))) =
           PyInt (Max (insert m (set ts)))"
  using assms
proof (induction items arbitrary: ts self w m)
  case Nil
  then show ?case by simp
next
  case (Cons item items)
  from Cons.prems(1) obtain t ts' where ts: "ts = t # ts'"
    and t: "item ''updated_on'' = Some (PyInt t)"
    and rest: "map (\<lambda>item. item ''updated_on'') items = map (\<lambda>t. Some (PyInt t)) ts'"
    by (cases ts) auto
  from Cons.prems(2) obtain u where u: "item ''uuid'' = Some u" by auto
  from Cons.prems(3) ts have tpos: "0 < t" and pos': "\<forall>t \<in> set ts'. 0 < t" by auto
  let ?r2 = "(result self)\<lparr>nitems := nitems (result self) + 1, last_uuid := u\<rparr>"
  let ?r3 = "if m < t then ?r2\<lparr>max_date := PyInt t\<rparr> else ?r2"
  have upd: "update_max_date ?r2 item = Inr ?r3"
    using t Cons.prems(4,5) by (simp add: update_max_date_def)
  let ?r4 = "case item ''offset'' of None \<Rightarrow> ?r3 | Some off \<Rightarrow> ?r3\<lparr>offset := off\<rparr>"
  have step: "run_items self w (item # items) ending =
              run_items (self\<lparr>result := ?r4\<rparr>) (rpush w (qitems self) item) items ending"
    using u upd by (simp add: Let_def)
  have m4: "max_date (result (self\<lparr>result := ?r4\<rparr>)) = PyInt (max m t)"
    using Cons.prems(4) by (auto split: option.splits)
  have "0 < max m t" using Cons.prems(5) by simp
  from Cons.IH [OF rest _ pos' m4 this, of "rpush w (qitems self) item"] Cons.prems(2)
  have "fst (run_items (self\<lparr>result := ?r4\<rparr>) (rpush w (qitems self) item) items ending) = ending \<and>
        max_date (result (fst (snd (run_items (self\<lparr>result := ?r4\<rparr>)
            (rpush w (qitems self) item) items ending)))) = PyInt (Max (insert (max m t) (set ts')))"
    by simp
  moreover have "Max (insert (max m t) (set ts')) = Max (insert m (set ts))"
    unfolding ts by (cases "ts' = []") (simp_all add: max.assoc max.commute max.left_commute)
  ultimately show ?case using step by simp
qed

lemma run_items_max_date_fresh:
  assumes "map (\<lambda>item. item ''updated_on'') items = map (\<lambda>t. Some (PyInt t)) ts"
    and "\<forall>item \<in> set items. item ''uuid'' \<noteq> None"
    and "\<forall>t \<in> set ts. 0 < t"
    and "\<not> truthy (max_date (result self))" and "items \<noteq> []"
  shows "fst (run_items self w items ending) = ending \<and>
         max_date (result (fst (snd (run_items self w items ending)))) = PyInt (Max (set ts))"
proof -
  from assms(1,5) obtain item rest t ts' where items: "items = item # rest"
    and ts: "ts = t # ts'"
    and t: "item ''updated_on'' = Some (PyInt t)"
    and rest: "map (\<lambda>item. item ''updated_on'') rest = map (\<lambda>t. Some (PyInt t)) ts'"
    by (cases items; cases ts) auto
  from assms(2) items obtain u where u: "item ''uuid'' = Some u" by auto
  from assms(3) ts have tpos: "0 < t" and pos': "\<forall>t \<in> set ts'. 0 < t" by auto
  let ?r2 = "(result self)\<lparr>nitems := nitems (result self) + 1, last_uuid := u\<rparr>"
  let ?r3 = "?r2\<lparr>max_date := PyInt t\<rparr>"
  have upd: "update_max_date ?r2 item = Inr ?r3"
    using t assms(4) by (simp add: update_max_date_def)
  let ?r4 = "case item ''offset'' of None \<Rightarrow> ?r3 | Some off \<Rightarrow> ?r3\<lparr>offset := off\<rparr>"
  have step: "run_items self w items ending =
              run_items (self\<lparr>result := ?r4\<rparr>) (rpush w (qitems self) item) rest ending"
    using u upd items by (simp add: Let_def)
  have m4: "max_date (result (self\<lparr>result := ?r4\<rparr>)) = PyInt t"
    by (auto split: option.splits)
  from run_items_max_date_positive [OF rest _ pos' m4 tpos,
      of "rpush w (qitems self) item" ending] assms(2) items
  have "fst (run_items (self\<lparr>result := ?r4\<rparr>) (rpush w (qitems self) item) rest ending) = ending \<and>
        max_date (result (fst (snd (run_items (self\<lparr>result := ?r4\<rparr>)
            (rpush w (qitems self) item) rest ending)))) = PyInt (Max (insert t (set ts')))"
    by simp
  with step ts show ?thesis by simp
qed

text \<open>
  C2. The claim fails on a timestamp 0 followed by a negative one: line 172 takes the
  recorded 0 for no date at all, and the run ends with \<open>max_date = -5\<close>, below the 0
  it had recorded, although the items queued have the timestamps 0 and -5.
\<close>

theorem max_date_lost_after_epoch:
  "max_date (result (fst (snd (run (sample_env epoch_backend None) (sample_job epoch_backend)
      sample_world 0 False False)))) = PyInt (- 5) \<and>
   map (\<lambda>item. item ''updated_on'') (redis (snd (snd (run (sample_env epoch_backend None)
      (sample_job epoch_backend) sample_world 0 False False))) ''items'') =
     [Some (PyInt 0), Some (PyInt (- 5))]"
  by (simp add: run_defs sample_defs epoch_backend_def)

lemma run_resume_injects:
  assumes "truthy (max_date (result self)) \<longrightarrow>
           unixtime_to_datetime env (max_date (result self)) = Inr d"
  shows "\<exists>w1. run_resume env self w args True =
           (None, self\<lparr>result := (result self)\<lparr>nresumed := nresumed (result self) + 1\<rparr>\<rparr>, w1) \<and>
           exec_log w1 = exec_log w \<and>
           (truthy (max_date (result self)) \<longrightarrow> heap_cells w1 args ''from_date'' = Some d) \<and>
           (truthy (offset (result self)) \<longrightarrow>
              heap_cells w1 args ''offset'' = Some (offset (result self)))"
  using assms by (auto simp: run_resume_def dict_set_def Let_def)

text \<open>
  C3, amended. In a call of \<^verbatim>\<open>run\<close> with \<^verbatim>\<open>resume=True\<close> where
  \<^verbatim>\<open>unixtime_to_datetime\<close> returns \<open>d\<close> for a recorded date that is true: the pipeline is
  executed once, on a bag that holds \<open>d\<close> under \<^verbatim>\<open>from_date\<close> when the recorded date
  is true (neither \<^verbatim>\<open>None\<close> nor zero) and the recorded offset under \<^verbatim>\<open>offset\<close> when it
  is true, and \<open>nresumed\<close> has grown by one when the call ends.
\<close>

theorem resume_injects_recorded_progress:
  assumes "truthy (max_date (result self)) \<longrightarrow>
           unixtime_to_datetime env (max_date (result self)) = Inr d"
  shows "\<exists>args.
           exec_log (snd (snd (run env self w backend_args True from_cache))) =
             exec_log w @ [(args, from_cache)] \<and>
           (truthy (max_date (result self)) \<longrightarrow> args ''from_date'' = Some d) \<and>
           (truthy (offset (result self)) \<longrightarrow> args ''offset'' = Some (offset (result self))) \<and>
           nresumed (result (fst (snd (run env self w backend_args True from_cache)))) =
             nresumed (result self) + 1"
proof -
  define w2 where "w2 = dict_set (snd (dict_copy w backend_args)) (heap_next w) ''cache''
                          (case cache self of None \<Rightarrow> PyNone | Some p \<Rightarrow> PyCache p)"
  have w2: "exec_log w2 = exec_log w" by (simp add: w2_def dict_set_def dict_copy_def)
  let ?self1 = "self\<lparr>result := (result self)\<lparr>nresumed := nresumed (result self) + 1\<rparr>\<rparr>"
  from run_resume_injects [OF assms, of w2 "heap_next w"]
  obtain w3 where r: "run_resume env self w2 (heap_next w) True = (None, ?self1, w3)"
    and l: "exec_log w3 = exec_log w2"
    and d: "truthy (max_date (result self)) \<longrightarrow> heap_cells w3 (heap_next w) ''from_date'' = Some d"
    and k: "truthy (offset (result self)) \<longrightarrow>
            heap_cells w3 (heap_next w) ''offset'' = Some (offset (result self))"
    by blast
  let ?args = "heap_cells w3 (heap_next w)"
  let ?w4 = "w3\<lparr>exec_log := exec_log w3 @ [(?args, from_cache)]\<rparr>"
  let ?p = "execute env ?self1 (length (exec_log w3)) ?args from_cache"
  obtain out self5 w5 where i: "run_items ?self1 ?w4 (fst ?p) (snd ?p) = (out, self5, w5)"
    by (cases "run_items ?self1 ?w4 (fst ?p) (snd ?p)") auto
  note f = run_items_frame [OF i]
  from r i have "run env self w backend_args True from_cache =
                 (out, self5, w5\<lparr>run_log := run_log w5 @ [out]\<rparr>)"
    by (simp add: run_def run_body_def dict_copy_def w2_def Let_def)
  with f l w2 d k show ?thesis by auto
qed

theorem resume_injects_recorded_progress_witness:
  "truthy (PyInt 1000) \<and> truthy (PyInt 7) \<and>
   unixtime_to_datetime (sample_env (quiet_backend True) None) (PyInt 1000) =
     Inr (PyDatetime 1000) \<and>
   (\<exists>args.
      exec_log (snd (snd (run (sample_env (quiet_backend True) None)
          (sample_job_after (quiet_backend True) (PyInt 1000) (PyInt 7)) sample_world 0 True
          False))) = [(args, False)] \<and>
      args ''from_date'' = Some (PyDatetime 1000) \<and> args ''offset'' = Some (PyInt 7)) \<and>
   nresumed (result (fst (snd (run (sample_env (quiet_backend True) None)
       (sample_job_after (quiet_backend True) (PyInt 1000) (PyInt 7)) sample_world 0 True
       False)))) = 1"
  using resume_injects_recorded_progress
    [of "sample_job_after (quiet_backend True) (PyInt 1000) (PyInt 7)"
        "sample_env (quiet_backend True) None" "PyDatetime 1000" sample_world 0 False]
  by (auto simp: sample_job_after_def sample_job_def sample_env_def sample_world_def)

text \<open>
  As stated, C3 fails at zero: the first run queues an item with timestamp 0 and offset
  0 and fails, the job is resumed with these two values recorded, and the bag of the
  second execution has neither \<^verbatim>\<open>from_date\<close> nor \<^verbatim>\<open>offset\<close>.
\<close>

theorem resume_injects_recorded_progress_counterexample:
  "fst (execute_perceval_job (sample_env (flaky_backend 0 0) None) sample_world ''job-1''
          ''git'' 0 ''items'' ''task-1'' None False 3) =
     Inr \<lparr>job_id = ''job-1'', task_id = ''task-1'', backend_name = ''git'',
          last_uuid = PyStr ''a'', max_date = PyInt 0, nitems = 1, offset = PyInt 0,
          nresumed = 1\<rparr> \<and>
   length (exec_log (snd (execute_perceval_job (sample_env (flaky_backend 0 0) None)
             sample_world ''job-1'' ''git'' 0 ''items'' ''task-1'' None False 3))) = 2 \<and>
   fst (exec_log (snd (execute_perceval_job (sample_env (flaky_backend 0 0) None)
          sample_world ''job-1'' ''git'' 0 ''items'' ''task-1'' None False 3)) ! 1)
     ''from_date'' = None \<and>
   fst (exec_log (snd (execute_perceval_job (sample_env (flaky_backend 0 0) None)
          sample_world ''job-1'' ''git'' 0 ''items'' ''task-1'' None False 3)) ! 1)
     ''offset'' = None"
  by (simp add: run_defs sample_defs flaky_backend_def setup_defs retry_loop.simps)

section \<open>The caller's bag\<close>

text \<open>
  C9. Whatever \<^verbatim>\<open>run\<close> does, and whether it returns or raises, the dictionary the
  caller passed as \<^verbatim>\<open>backend_args\<close> (an allocated object) holds after the call what it
  held before: the entries \<^verbatim>\<open>cache\<close>, \<^verbatim>\<open>from_date\<close> and \<^verbatim>\<open>offset\<close> are written to
  the copy of line 152.
\<close>

theorem run_keeps_callers_bag:
  assumes "backend_args < heap_next w"
  shows "heap_cells (snd (snd (run env self w backend_args resume from_cache))) backend_args =
         heap_cells w backend_args"
proof -
  obtain out self1 w1 where r: "run env self w backend_args resume from_cache = (out, self1, w1)"
    by (cases "run env self w backend_args resume from_cache") auto
  from run_frame [OF r] assms r show ?thesis by simp
qed

theorem run_keeps_callers_bag_witness:
  "(0::nat) < heap_next sample_world \<and>
   heap_cells (snd (snd (run (sample_env (quiet_backend True) None)
       ((sample_job_after (quiet_backend True) (PyInt 1000) (PyInt 7))\<lparr>cache := Some ''/tmp/cache''\<rparr>)
       sample_world 0 True False))) 0 = heap_cells sample_world 0 \<and>
   heap_cells sample_world 0 ''cache'' = None \<and>
   heap_cells sample_world 0 ''from_date'' = None \<and>
   heap_cells sample_world 0 ''offset'' = None \<and>
   fst (last (exec_log (snd (snd (run (sample_env (quiet_backend True) None)
       ((sample_job_after (quiet_backend True) (PyInt 1000) (PyInt 7))\<lparr>cache := Some ''/tmp/cache''\<rparr>)
       sample_world 0 True False))))) ''cache'' = Some (PyCache ''/tmp/cache'') \<and>
   fst (last (exec_log (snd (snd (run (sample_env (quiet_backend True) None)
       ((sample_job_after (quiet_backend True) (PyInt 1000) (PyInt 7))\<lparr>cache := Some ''/tmp/cache''\<rparr>)
       sample_world 0 True False))))) ''from_date'' = Some (PyDatetime 1000) \<and>
   fst (last (exec_log (snd (snd (run (sample_env (quiet_backend True) None)
       ((sample_job_after (quiet_backend True) (PyInt 1000) (PyInt 7))\<lparr>cache := Some ''/tmp/cache''\<rparr>)
       sample_world 0 True False))))) ''offset'' = Some (PyInt 7)"
  using run_keeps_callers_bag [of 0 sample_world "sample_env (quiet_backend True) None"
      "(sample_job_after (quiet_backend True) (PyInt 1000) (PyInt 7))\<lparr>cache := Some ''/tmp/cache''\<rparr>"
      True False]
  by (simp add: sample_world_def)
     (simp add: run_defs sample_defs quiet_backend_def sample_job_after_def)

section \<open>Tagged items\<close>

lemma run_items_pushes:
  "\<exists>k. redis (snd (snd (run_items self w items ending))) (qitems self) =
        redis w (qitems self) @ take k items"
proof (induction items arbitrary: self w)
  case Nil
  then show ?case by simp
next
  case (Cons item items)
  let ?w1 = "rpush w (qitems self) item"
  have w1: "redis ?w1 (qitems self) = redis w (qitems self) @ [item]"
    by (simp add: rpush_def)
  have stop: "\<exists>k. redis ?w1 (qitems self) = redis w (qitems self) @ take k (item # items)"
    using w1 by (intro exI [of _ 1]) simp
  have go: "\<exists>k. redis (snd (snd (run_items (self\<lparr>result := r\<rparr>) ?w1 items ending))) (qitems self) =
              redis w (qitems self) @ take k (item # items)" for r
  proof -
    from Cons.IH [of "self\<lparr>result := r\<rparr>" ?w1]
    obtain k where "redis (snd (snd (run_items (self\<lparr>result := r\<rparr>) ?w1 items ending)))
                      (qitems self) = redis ?w1 (qitems self) @ take k items"
      by auto
    with w1 show ?thesis by (intro exI [of _ "Suc k"]) simp
  qed
  show ?case
    using stop go by (simp add: Let_def split: option.splits sum.splits)
qed

lemma metadata_tags:
  "item \<in> set (fst (metadata env self p)) \<Longrightarrow>
   item ''job_id'' = Some (PyStr (self_job_id self)) \<and>
   item ''arthur_version'' = Some (PyStr (version env))"
  by (auto simp: metadata_def)

lemma run_resume_ids:
  assumes "run_resume env self w args resume = (out, self1, w1)"
  shows "qitems self1 = qitems self \<and> self_job_id self1 = self_job_id self"
  using assms
  by (auto simp: run_resume_def Let_def split: sum.splits if_splits)

lemma run_pushes_tagged:
  "\<exists>pushed.
     redis (snd (snd (run env self w backend_args resume from_cache))) (qitems self) =
       redis w (qitems self) @ pushed \<and>
     (\<forall>item \<in> set pushed.
        item ''job_id'' = Some (PyStr (self_job_id self)) \<and>
        item ''arthur_version'' = Some (PyStr (version env)))"
proof -
  define w2 where "w2 = dict_set (snd (dict_copy w backend_args)) (heap_next w) ''cache''
                          (case cache self of None \<Rightarrow> PyNone | Some p \<Rightarrow> PyCache p)"
  have w2: "redis w2 = redis w" by (simp add: w2_def dict_set_def dict_copy_def)
  obtain o3 self3 w3 where r: "run_resume env self w2 (heap_next w) resume = (o3, self3, w3)"
    by (cases "run_resume env self w2 (heap_next w) resume") auto
  note f3 = run_resume_frame [OF r] and id3 = run_resume_ids [OF r]
  show ?thesis
  proof (cases o3)
    case (Some e)
    with r have "run env self w backend_args resume from_cache =
                 (Some e, self3, w3\<lparr>run_log := run_log w3 @ [Some e]\<rparr>)"
      by (simp add: run_def run_body_def dict_copy_def w2_def Let_def)
    with f3 w2 show ?thesis by (intro exI [of _ "[]"]) simp
  next
    case None
    let ?args = "heap_cells w3 (heap_next w)"
    let ?w4 = "w3\<lparr>exec_log := exec_log w3 @ [(?args, from_cache)]\<rparr>"
    let ?p = "execute env self3 (length (exec_log w3)) ?args from_cache"
    obtain out self5 w5 where i: "run_items self3 ?w4 (fst ?p) (snd ?p) = (out, self5, w5)"
      by (cases "run_items self3 ?w4 (fst ?p) (snd ?p)") auto
    from run_items_pushes [of self3 ?w4 "fst ?p" "snd ?p"] i
    obtain k where k: "redis w5 (qitems self3) = redis ?w4 (qitems self3) @ take k (fst ?p)"
      by auto
    from r None i have "run env self w backend_args resume from_cache =
                        (out, self5, w5\<lparr>run_log := run_log w5 @ [out]\<rparr>)"
      by (simp add: run_def run_body_def dict_copy_def w2_def Let_def)
    moreover have "\<forall>item \<in> set (take k (fst ?p)).
        item ''job_id'' = Some (PyStr (self_job_id self)) \<and>
        item ''arthur_version'' = Some (PyStr (version env))"
    proof
      fix item
      assume "item \<in> set (take k (fst ?p))"
      then have "item \<in> set (fst ?p)" by (rule in_set_takeD)
      then have "item \<in> set (fst (metadata env self3
                   (execute_body self3 (length (exec_log w3)) ?args from_cache)))"
        by (simp only: execute_def)
      from metadata_tags [OF this] id3
      show "item ''job_id'' = Some (PyStr (self_job_id self)) \<and>
            item ''arthur_version'' = Some (PyStr (version env))"
        by simp
    qed
    ultimately show ?thesis
      using k f3 id3 w2 by (intro exI [of _ "take k (fst ?p)"]) simp
  qed
qed

text \<open>
  C8. The decorated pipeline yields as many items as its body, in the same order, and
  ends as the body ends; each item has the job's identifier under \<^verbatim>\<open>job_id\<close> and the
  version of the system under \<^verbatim>\<open>arthur_version\<close>, and under every other key what the
  body's item has. Every item a run appends to the queue of the job has the two entries.
\<close>

theorem metadata_tags_every_item:
  "length (fst (execute env self n args from_cache)) =
     length (fst (execute_body self n args from_cache)) \<and>
   snd (execute env self n args from_cache) = snd (execute_body self n args from_cache) \<and>
   (\<forall>i < length (fst (execute_body self n args from_cache)).
      (fst (execute env self n args from_cache) ! i) ''job_id'' =
        Some (PyStr (self_job_id self)) \<and>
      (fst (execute env self n args from_cache) ! i) ''arthur_version'' =
        Some (PyStr (version env)) \<and>
      (\<forall>k. k \<noteq> ''job_id'' \<and> k \<noteq> ''arthur_version'' \<longrightarrow>
         (fst (execute env self n args from_cache) ! i) k =
         (fst (execute_body self n args from_cache) ! i) k)) \<and>
   (\<exists>pushed.
      redis (snd (snd (run env self w backend_args resume from_cache))) (qitems self) =
        redis w (qitems self) @ pushed \<and>
      (\<forall>item \<in> set pushed.
         item ''job_id'' = Some (PyStr (self_job_id self)) \<and>
         item ''arthur_version'' = Some (PyStr (version env))))"
  using run_pushes_tagged [of env self w backend_args resume from_cache]
  by (simp add: execute_def metadata_def)

theorem metadata_tags_every_item_witness:
  "fst (execute_body (sample_job epoch_backend) 0 Map.empty False) =
     [sample_item ''a'' 0 0, sample_item ''b'' (- 5) 1] \<and>
   fst (execute (sample_env epoch_backend None) (sample_job epoch_backend) 0 Map.empty False) =
     [tagged_item ''a'' 0 0, tagged_item ''b'' (- 5) 1] \<and>
   (fst (execute (sample_env epoch_backend None) (sample_job epoch_backend) 0 Map.empty False) ! 1)
     ''job_id'' = Some (PyStr ''job-1'') \<and>
   (fst (execute (sample_env epoch_backend None) (sample_job epoch_backend) 0 Map.empty False) ! 1)
     ''uuid'' = Some (PyStr ''b'') \<and>
   redis (snd (snd (run (sample_env epoch_backend None) (sample_job epoch_backend) sample_world
                      0 False False))) ''items'' =
     [tagged_item ''a'' 0 0, tagged_item ''b'' (- 5) 1]"
  using metadata_tags_every_item [of "sample_env epoch_backend None" "sample_job epoch_backend"
      0 Map.empty False sample_world 0 False]
  by (simp add: run_defs sample_defs epoch_backend_def tagged_item_def)

end
